theory Spec2Isabelle
  imports Main "HOL-Library.Char_ord" "HOL-Library.List_Lexorder"
begin

section \<open>Text\<close>

text \<open>
  Text is a list of code points below 256. \<open>isspace\<close> is the whitespace class that
  \<open>str.split()\<close> uses in that range, and \<open>islinebreak\<close> the line boundaries at which
  the codec reader (\<open>codecs.open\<close>, iterated line by line) cuts its input.
\<close>

definition isspace :: "char \<Rightarrow> bool" where
  "isspace c = (c \<in> set [CHR 0x09, CHR 0x0A, CHR 0x0B, CHR 0x0C, CHR 0x0D,
                          CHR 0x1C, CHR 0x1D, CHR 0x1E, CHR 0x1F, CHR 0x20,
                          CHR 0x85, CHR 0xA0])"

definition islinebreak :: "char \<Rightarrow> bool" where
  "islinebreak c = (c \<in> set [CHR 0x0A, CHR 0x0B, CHR 0x0C, CHR 0x0D,
                              CHR 0x1C, CHR 0x1D, CHR 0x1E, CHR 0x85])"

text \<open>\<open>s.split()\<close>: the maximal runs of non-whitespace, in order. The first argument
  is the run being read, reversed.\<close>

fun split_from :: "string \<Rightarrow> string \<Rightarrow> string list" where
  "split_from cur [] = (if cur = [] then [] else [rev cur])"
| "split_from cur (c # cs) =
     (if isspace c
      then (if cur = [] then split_from [] cs else rev cur # split_from [] cs)
      else split_from (c # cur) cs)"

definition str_split :: "string \<Rightarrow> string list" where
  "str_split s = split_from [] s"

text \<open>Iterating the opened file: each line keeps its line end, \<open>CR LF\<close> is one line
  end, and a last line without a line end is a line too.\<close>

fun lines_from :: "string \<Rightarrow> string \<Rightarrow> string list" where
  "lines_from cur [] = (if cur = [] then [] else [rev cur])"
| "lines_from cur [c] =
     (if islinebreak c then [rev (c # cur)] else [rev (c # cur)])"
| "lines_from cur (c # d # cs) =
     (if c = CHR 0x0D \<and> d = CHR 0x0A then rev (d # c # cur) # lines_from [] cs
      else if islinebreak c then rev (c # cur) # lines_from [] (d # cs)
      else lines_from (c # cur) (d # cs))"

definition readlines :: "string \<Rightarrow> string list" where
  "readlines s = lines_from [] s"

text \<open>\<open>sep.join(xs)\<close>\<close>

fun join :: "string \<Rightarrow> string list \<Rightarrow> string" where
  "join sep [] = []"
| "join sep [x] = x"
| "join sep (x # y # ys) = x @ sep @ join sep (y # ys)"

definition startswith :: "string \<Rightarrow> string \<Rightarrow> bool" where
  "startswith s p = (take (length p) s = p)"

section \<open>Lines of a package file (packagefile.py)\<close>

datatype error = InvalidPackageEntry | ValueError | AttributeError | IndexError | IOError

datatype PackageFlag = PackageFlag (modifier: string) (name: string)

text \<open>\<open>PackageFlag.__init__\<close>: \<open>s[0]\<close> raises IndexError on the empty string.\<close>

fun PackageFlag_init :: "string \<Rightarrow> error + PackageFlag" where
  "PackageFlag_init [] = Inl IndexError"
| "PackageFlag_init (c # cs) =
     (if c = CHR ''-'' \<or> c = CHR ''+'' then Inr (PackageFlag [c] cs)
      else Inr (PackageFlag [] (c # cs)))"

definition PackageFlag_toString :: "PackageFlag \<Rightarrow> string" where
  "PackageFlag_toString x = modifier x @ name x"

text \<open>A line object is a \<open>Whitespace\<close> (its text) or a \<open>PackageEntry\<close> (\<open>as_str\<close>,
  \<open>modified\<close>, \<open>package\<close>, \<open>flags\<close>).\<close>

datatype line =
    Whitespace string
  | PackageEntry string bool string "PackageFlag list"

text \<open>The list comprehension \<open>[self.PackageFlag(x) for x in sl]\<close>.\<close>

fun flags_of :: "string list \<Rightarrow> error + PackageFlag list" where
  "flags_of [] = Inr []"
| "flags_of (x # xs) =
     (case PackageFlag_init x of
        Inl e \<Rightarrow> Inl e
      | Inr f \<Rightarrow> (case flags_of xs of Inl e \<Rightarrow> Inl e | Inr fs \<Rightarrow> Inr (f # fs)))"

definition PackageEntry_init :: "string \<Rightarrow> error + line" where
  "PackageEntry_init l =
     (case str_split l of
        [] \<Rightarrow> Inl InvalidPackageEntry
      | p # sl \<Rightarrow>
          if startswith p ''#'' then Inl InvalidPackageEntry
          else (case flags_of sl of
                  Inl e \<Rightarrow> Inl e
                | Inr fs \<Rightarrow> Inr (PackageEntry l False p fs)))"

text \<open>The \<open>modified\<close> property of either class, and its setter (a no-op on
  \<open>Whitespace\<close>).\<close>

fun modified :: "line \<Rightarrow> bool" where
  "modified (Whitespace d) = False"
| "modified (PackageEntry s m p fl) = m"

fun set_modified :: "bool \<Rightarrow> line \<Rightarrow> line" where
  "set_modified v (Whitespace d) = Whitespace d"
| "set_modified v (PackageEntry s m p fl) = PackageEntry s v p fl"

fun toString :: "line \<Rightarrow> string" where
  "toString (Whitespace d) = d"
| "toString (PackageEntry s m p fl) =
     (if \<not> m then s
      else join '' '' ([p] @ map PackageFlag_toString fl) @ [CHR 0x0A])"

text \<open>Truth value of a line object: a \<open>Whitespace\<close> is always true, a
  \<open>PackageEntry\<close> is true when \<open>__len__\<close> is not zero.\<close>

fun truthy :: "line \<Rightarrow> bool" where
  "truthy (Whitespace d) = True"
| "truthy (PackageEntry s m p fl) = (length fl \<noteq> 0)"

fun isPackageEntry :: "line \<Rightarrow> bool" where
  "isPackageEntry (Whitespace d) = False"
| "isPackageEntry (PackageEntry s m p fl) = True"

section \<open>Objects, files and the file system\<close>

text \<open>
  Line objects live in a heap and are known by their address, so that two lines with the
  same text are still two objects; \<open>nxt\<close> is the next free address. A path of the file
  system names a regular file (its text) or a directory (the paths that \<open>glob.glob\<close>
  returns for the pattern \<open>os.path.join(path, '*')\<close>, in any order). \<open>wlog\<close> records
  every file opened for writing, with the text written. Opening a file fails when the path
  names a directory; permissions and missing parent directories are not modelled.
\<close>

datatype node = File string | Dir "string list"

record world =
  heap :: "nat \<Rightarrow> line"
  nxt :: nat
  fs :: "string \<Rightarrow> node option"
  wlog :: "(string \<times> string) list"

record PackageFile =
  path :: string
  priv_modified :: bool
  items :: "nat list"

definition alloc :: "line \<Rightarrow> world \<Rightarrow> nat \<times> world" where
  "alloc obj w = (nxt w, w\<lparr>heap := (heap w)(nxt w := obj), nxt := Suc (nxt w)\<rparr>)"

text \<open>The \<open>modified\<close> property of \<open>PackageFile\<close>.\<close>

fun any_modified :: "(nat \<Rightarrow> line) \<Rightarrow> nat list \<Rightarrow> bool" where
  "any_modified h [] = False"
| "any_modified h (e # es) = (if modified (h e) then True else any_modified h es)"

definition PackageFile_modified :: "(nat \<Rightarrow> line) \<Rightarrow> PackageFile \<Rightarrow> bool" where
  "PackageFile_modified h f = (if priv_modified f then True else any_modified h (items f))"

text \<open>\<open>PackageFile.write\<close>: the first loop appends to the opened file, the second
  clears the flags.\<close>

fun write_lines :: "(nat \<Rightarrow> line) \<Rightarrow> nat list \<Rightarrow> string \<Rightarrow> string" where
  "write_lines h [] out = out"
| "write_lines h (l # ls) out =
     write_lines h ls (if \<not> modified (h l) \<or> truthy (h l) then out @ toString (h l) else out)"

fun clear_modified :: "nat list \<Rightarrow> (nat \<Rightarrow> line) \<Rightarrow> (nat \<Rightarrow> line)" where
  "clear_modified [] h = h"
| "clear_modified (e # es) h = clear_modified es (h(e := set_modified False (h e)))"

definition PackageFile_write :: "PackageFile \<Rightarrow> world \<Rightarrow> error + (PackageFile \<times> world)" where
  "PackageFile_write f w =
     (if \<not> PackageFile_modified (heap w) f then Inr (f, w)
      else (case fs w (path f) of
              Some (Dir ns) \<Rightarrow> Inl IOError
            | _ \<Rightarrow>
                (let out = write_lines (heap w) (items f) []
                 in Inr (f\<lparr>priv_modified := False\<rparr>,
                         w\<lparr>heap := clear_modified (items f) (heap w),
                           fs := (fs w)(path f \<mapsto> File out),
                           wlog := wlog w @ [(path f, out)]\<rparr>))))"

text \<open>What the specification says a line contributes to a rewritten file.\<close>

fun written_text :: "line \<Rightarrow> string" where
  "written_text (Whitespace d) = d"
| "written_text (PackageEntry s False p fl) = s"
| "written_text (PackageEntry s True p []) = []"
| "written_text (PackageEntry s True p (f # fl)) =
     p @ '' '' @ join '' '' (map PackageFlag_toString (f # fl)) @ [CHR 0x0A]"

section \<open>Loading and sorting a file\<close>

text \<open>\<open>PackageFile.__init__\<close>: every line of the file becomes a fresh object, a
  \<open>PackageEntry\<close> when the line parses and a \<open>Whitespace\<close> when the constructor raises
  \<open>InvalidPackageEntry\<close>; any other exception is passed on.\<close>

fun load_lines :: "string list \<Rightarrow> world \<Rightarrow> nat list \<Rightarrow> error + (nat list \<times> world)" where
  "load_lines [] w its = Inr (its, w)"
| "load_lines (l # ls) w its =
     (case PackageEntry_init l of
        Inr e \<Rightarrow> (case alloc e w of (r, w') \<Rightarrow> load_lines ls w' (its @ [r]))
      | Inl InvalidPackageEntry \<Rightarrow>
          (case alloc (Whitespace l) w of (r, w') \<Rightarrow> load_lines ls w' (its @ [r]))
      | Inl err \<Rightarrow> Inl err)"

definition PackageFile_init :: "string \<Rightarrow> world \<Rightarrow> error + (PackageFile \<times> world)" where
  "PackageFile_init p w =
     (case fs w p of
        None \<Rightarrow> Inr (\<lparr>path = p, priv_modified = False, items = []\<rparr>, w)
      | Some (Dir ps) \<Rightarrow> Inl IOError
      | Some (File c) \<Rightarrow>
          (case load_lines (readlines c) w [] of
             Inl e \<Rightarrow> Inl e
           | Inr (its, w') \<Rightarrow> Inr (\<lparr>path = p, priv_modified = False, items = its\<rparr>, w')))"

text \<open>\<open>list.remove(x)\<close> on a list of objects that define no \<open>__eq__\<close>: the first
  occurrence of that very object goes, and \<open>ValueError\<close> is raised when there is none.\<close>

definition list_remove :: "nat \<Rightarrow> nat list \<Rightarrow> error + nat list" where
  "list_remove x xs = (if x \<in> set xs then Inr (remove1 x xs) else Inl ValueError)"

text \<open>The attribute \<open>package\<close>: a \<open>Whitespace\<close> has none.\<close>

fun getattr_package :: "line \<Rightarrow> error + string" where
  "getattr_package (Whitespace d) = Inl AttributeError"
| "getattr_package (PackageEntry s m p fl) = Inr p"

text \<open>The key by which \<open>PackageEntry.__lt__\<close> compares.\<close>

fun lt_key :: "line \<Rightarrow> string" where
  "lt_key (Whitespace d) = []"
| "lt_key (PackageEntry s m p fl) = p"

text \<open>\<open>PackageFile.sort\<close>. The first loop runs over a copy of the list and removes each
  \<open>Whitespace\<close> from the list itself. \<open>list.sort\<close> is the stable sort by \<open>__lt__\<close>,
  which compares the package expressions as strings.\<close>

fun drop_whitespace :: "(nat \<Rightarrow> line) \<Rightarrow> nat list \<Rightarrow> nat list \<Rightarrow> error + nat list" where
  "drop_whitespace h [] self = Inr self"
| "drop_whitespace h (e # es) self =
     (if \<not> isPackageEntry (h e)
      then (case list_remove e self of
              Inl err \<Rightarrow> Inl err
            | Inr self' \<Rightarrow> drop_whitespace h es self')
      else drop_whitespace h es self)"

definition PackageFile_sort :: "(nat \<Rightarrow> line) \<Rightarrow> PackageFile \<Rightarrow> error + PackageFile" where
  "PackageFile_sort h f =
     (case drop_whitespace h (items f) (items f) of
        Inl err \<Rightarrow> Inl err
      | Inr its \<Rightarrow> Inr (f\<lparr>items := sort_key (\<lambda>r. lt_key (h r)) its, priv_modified := True\<rparr>))"

section \<open>The set of files (PackageFileSet and PackageKeywordsFileSet)\<close>

text \<open>
  \<open>priv_path\<close> and \<open>priv_files\<close> are the attributes \<open>_path\<close> and \<open>_files\<close>.
  \<open>priv_defkw\<close> is \<open>None\<close> for a plain \<open>PackageFileSet\<close> and holds \<open>_defkw\<close> for a
  \<open>PackageKeywordsFileSet\<close>, whose \<open>read\<close> overrides the inherited one.
\<close>

record PackageFileSet =
  priv_path :: string
  priv_files :: "PackageFile list"
  priv_defkw :: "string list option"

definition PackageFileSet_init :: "string \<Rightarrow> PackageFileSet" where
  "PackageFileSet_init p = \<lparr>priv_path = p, priv_files = [], priv_defkw = None\<rparr>"

text \<open>\<open>PackageKeywordsFileSet.__init__\<close>, given the value of \<open>ACCEPT_KEYWORDS\<close>.\<close>

fun not_tilde_or_minus :: "string \<Rightarrow> bool" where
  "not_tilde_or_minus [] = False"
| "not_tilde_or_minus (c # cs) = (c \<noteq> CHR ''~'' \<and> c \<noteq> CHR ''-'')"

definition PackageKeywordsFileSet_init :: "string \<Rightarrow> string \<Rightarrow> PackageFileSet" where
  "PackageKeywordsFileSet_init p accept_keywords =
     \<lparr>priv_path = p, priv_files = [],
      priv_defkw = Some (map (\<lambda>x. CHR ''~'' # x)
                          (filter not_tilde_or_minus (str_split accept_keywords)))\<rparr>"

text \<open>\<open>os.path.join\<close> of two components.\<close>

definition path_join :: "string \<Rightarrow> string \<Rightarrow> string" where
  "path_join a b =
     (if startswith b ''/'' then b
      else if a = [] \<or> last a = CHR ''/'' then a @ b
      else a @ ''/'' @ b)"

text \<open>\<open>PackageFileSet.read\<close>\<close>

fun read_files :: "string list \<Rightarrow> PackageFile list \<Rightarrow> world \<Rightarrow> error + (PackageFile list \<times> world)" where
  "read_files [] fl w = Inr (fl, w)"
| "read_files (p # ps) fl w =
     (case PackageFile_init p w of
        Inl e \<Rightarrow> Inl e
      | Inr (f, w') \<Rightarrow> read_files ps (fl @ [f]) w')"

definition paths_of :: "PackageFileSet \<Rightarrow> world \<Rightarrow> string list" where
  "paths_of st w =
     (case fs w (priv_path st) of
        Some (Dir ps) \<Rightarrow>
          (if sort ps = [] then [path_join (priv_path st) ''flaggie''] else sort ps)
      | _ \<Rightarrow> [priv_path st])"

definition PackageFileSet_read :: "PackageFileSet \<Rightarrow> world \<Rightarrow> error + (PackageFileSet \<times> world)" where
  "PackageFileSet_read st w =
     (if priv_files st \<noteq> [] then Inr (st, w)
      else (case read_files (paths_of st w) (priv_files st) w of
              Inl e \<Rightarrow> Inl e
            | Inr (fl, w') \<Rightarrow> Inr (st\<lparr>priv_files := fl\<rparr>, w')))"

text \<open>\<open>PackageFileSet.__iter__\<close> over files that are loaded: the files from the last to
  the first, each from its last line to its first, and only the \<open>PackageEntry\<close> objects.\<close>

fun yield_entries :: "(nat \<Rightarrow> line) \<Rightarrow> nat list \<Rightarrow> nat list" where
  "yield_entries h [] = []"
| "yield_entries h (e # es) =
     (if isPackageEntry (h e) then e # yield_entries h es else yield_entries h es)"

fun iter_files :: "(nat \<Rightarrow> line) \<Rightarrow> PackageFile list \<Rightarrow> nat list" where
  "iter_files h [] = []"
| "iter_files h (f # fl) = yield_entries h (rev (items f)) @ iter_files h fl"

text \<open>\<open>PackageEntry.append\<close> with a string or a \<open>PackageFlag\<close>.\<close>

datatype flagarg = FlagStr string | FlagObj PackageFlag

definition PackageEntry_append :: "flagarg \<Rightarrow> line \<Rightarrow> error + line" where
  "PackageEntry_append flag e =
     (case e of
        Whitespace d \<Rightarrow> Inl AttributeError
      | PackageEntry s m p fl \<Rightarrow>
          (case (case flag of FlagObj f \<Rightarrow> Inr f | FlagStr x \<Rightarrow> PackageFlag_init x) of
             Inl err \<Rightarrow> Inl err
           | Inr f \<Rightarrow> Inr (PackageEntry s True p (fl @ [f]))))"

text \<open>\<open>PackageKeywordsFileSet.read\<close>. After the inherited \<open>read\<close> the list of files is
  not empty (lemma \<open>read_files_not_empty\<close> below), so that the iteration \<open>for e in self\<close>
  does not read again; it is the iteration over the loaded files.\<close>

fun append_all :: "string list \<Rightarrow> line \<Rightarrow> error + line" where
  "append_all [] e = Inr e"
| "append_all (k # ks) e =
     (case PackageEntry_append (FlagStr k) e of
        Inl err \<Rightarrow> Inl err
      | Inr e' \<Rightarrow> append_all ks e')"

fun set_defaults :: "string list \<Rightarrow> nat list \<Rightarrow> (nat \<Rightarrow> line) \<Rightarrow> error + (nat \<Rightarrow> line)" where
  "set_defaults kws [] h = Inr h"
| "set_defaults kws (e # es) h =
     (if \<not> truthy (h e)
      then (case append_all kws (h e) of
              Inl err \<Rightarrow> Inl err
            | Inr l \<Rightarrow> set_defaults kws es (h(e := set_modified False l)))
      else set_defaults kws es h)"

definition PackageKeywordsFileSet_read ::
  "string list \<Rightarrow> PackageFileSet \<Rightarrow> world \<Rightarrow> error + (PackageFileSet \<times> world)" where
  "PackageKeywordsFileSet_read kws st w =
     (if priv_files st \<noteq> [] then Inr (st, w)
      else (case PackageFileSet_read st w of
              Inl e \<Rightarrow> Inl e
            | Inr (st1, w1) \<Rightarrow>
                (case set_defaults kws (iter_files (heap w1) (rev (priv_files st1))) (heap w1) of
                   Inl e \<Rightarrow> Inl e
                 | Inr h \<Rightarrow> Inr (st1, w1\<lparr>heap := h\<rparr>))))"

text \<open>The method \<open>read\<close> of the object's class, and the property \<open>files\<close>.\<close>

definition read :: "PackageFileSet \<Rightarrow> world \<Rightarrow> error + (PackageFileSet \<times> world)" where
  "read st w =
     (case priv_defkw st of
        None \<Rightarrow> PackageFileSet_read st w
      | Some kws \<Rightarrow> PackageKeywordsFileSet_read kws st w)"

definition files :: "PackageFileSet \<Rightarrow> world \<Rightarrow> error + (PackageFileSet \<times> world)" where
  "files st w = (if priv_files st = [] then read st w else Inr (st, w))"

text \<open>\<open>PackageFileSet.write\<close>\<close>

fun write_files :: "PackageFile list \<Rightarrow> world \<Rightarrow> error + world" where
  "write_files [] w = Inr w"
| "write_files (f # fl) w =
     (case PackageFile_write f w of
        Inl e \<Rightarrow> Inl e
      | Inr (f', w') \<Rightarrow> write_files fl w')"

definition PackageFileSet_write :: "PackageFileSet \<Rightarrow> world \<Rightarrow> error + (PackageFileSet \<times> world)" where
  "PackageFileSet_write st w =
     (if priv_files st = [] then Inr (st, w)
      else (case write_files (priv_files st) w of
              Inl e \<Rightarrow> Inl e
            | Inr w' \<Rightarrow> Inr (st\<lparr>priv_files := []\<rparr>, w')))"

text \<open>An argument that is a string or a line object.\<close>

datatype pyval = PyStr string | PyRef nat

text \<open>\<open>PackageFileSet.append\<close>\<close>

definition PackageFileSet_append ::
  "pyval \<Rightarrow> PackageFileSet \<Rightarrow> world \<Rightarrow> error + (nat \<times> PackageFileSet \<times> world)" where
  "PackageFileSet_append pkg st w =
     (case files st w of
        Inl e \<Rightarrow> Inl e
      | Inr (st1, w1) \<Rightarrow>
          (if priv_files st1 = [] then Inl IndexError
           else (case (case pkg of
                         PyRef r \<Rightarrow>
                           (if isPackageEntry (heap w1 r) then Inr (r, w1) else Inl AttributeError)
                       | PyStr s \<Rightarrow>
                           (case PackageEntry_init s of
                              Inl e \<Rightarrow> Inl e
                            | Inr e \<Rightarrow> Inr (alloc e w1))) of
                   Inl e \<Rightarrow> Inl e
                 | Inr (r, w2) \<Rightarrow>
                     (let f = last (priv_files st1)
                      in Inr (r,
                              st1\<lparr>priv_files :=
                                    butlast (priv_files st1) @ [f\<lparr>items := items f @ [r]\<rparr>]\<rparr>,
                              w2\<lparr>heap := (heap w2)(r := set_modified True (heap w2 r))\<rparr>)))))"

text \<open>\<open>PackageFileSet.remove\<close>: \<open>f.remove(pkg)\<close> is \<open>list.remove\<close>. No line object is
  equal to a string, so with a string it raises \<open>ValueError\<close> in every file.\<close>

definition file_remove :: "pyval \<Rightarrow> nat list \<Rightarrow> error + nat list" where
  "file_remove pkg its =
     (case pkg of PyStr s \<Rightarrow> Inl ValueError | PyRef r \<Rightarrow> list_remove r its)"

fun remove_loop :: "pyval \<Rightarrow> PackageFile list \<Rightarrow> bool \<Rightarrow> PackageFile list \<times> bool" where
  "remove_loop pkg [] found = ([], found)"
| "remove_loop pkg (f # fl) found =
     (case file_remove pkg (items f) of
        Inl err \<Rightarrow> (case remove_loop pkg fl found of (fl', b) \<Rightarrow> (f # fl', b))
      | Inr its \<Rightarrow>
          (case remove_loop pkg fl True of
             (fl', b) \<Rightarrow> (f\<lparr>items := its, priv_modified := True\<rparr> # fl', b)))"

definition PackageFileSet_remove ::
  "pyval \<Rightarrow> PackageFileSet \<Rightarrow> world \<Rightarrow> error + (PackageFileSet \<times> world)" where
  "PackageFileSet_remove pkg st w =
     (case files st w of
        Inl e \<Rightarrow> Inl e
      | Inr (st1, w1) \<Rightarrow>
          (case remove_loop pkg (priv_files st1) False of
             (fl, found) \<Rightarrow>
               (if \<not> found then Inl ValueError else Inr (st1\<lparr>priv_files := fl\<rparr>, w1))))"

text \<open>\<open>PackageFileSet.sort\<close>\<close>

fun sort_files :: "(nat \<Rightarrow> line) \<Rightarrow> PackageFile list \<Rightarrow> error + PackageFile list" where
  "sort_files h [] = Inr []"
| "sort_files h (f # fl) =
     (case PackageFile_sort h f of
        Inl e \<Rightarrow> Inl e
      | Inr f' \<Rightarrow> (case sort_files h fl of Inl e \<Rightarrow> Inl e | Inr fl' \<Rightarrow> Inr (f' # fl')))"

definition PackageFileSet_sort :: "PackageFileSet \<Rightarrow> world \<Rightarrow> error + (PackageFileSet \<times> world)" where
  "PackageFileSet_sort st w =
     (case files st w of
        Inl e \<Rightarrow> Inl e
      | Inr (st1, w1) \<Rightarrow>
          (case sort_files (heap w1) (priv_files st1) of
             Inl e \<Rightarrow> Inl e
           | Inr fl \<Rightarrow> Inr (st1\<lparr>priv_files := fl\<rparr>, w1)))"

text \<open>\<open>PackageFileSet.__iter__\<close> and \<open>__getitem__\<close>, as the list of what they yield.\<close>

definition PackageFileSet_iter ::
  "PackageFileSet \<Rightarrow> world \<Rightarrow> error + (nat list \<times> PackageFileSet \<times> world)" where
  "PackageFileSet_iter st w =
     (case files st w of
        Inl e \<Rightarrow> Inl e
      | Inr (st1, w1) \<Rightarrow> Inr (iter_files (heap w1) (rev (priv_files st1)), st1, w1))"

fun select_package :: "(nat \<Rightarrow> line) \<Rightarrow> string \<Rightarrow> nat list \<Rightarrow> error + nat list" where
  "select_package h pkg [] = Inr []"
| "select_package h pkg (e # es) =
     (case getattr_package (h e) of
        Inl err \<Rightarrow> Inl err
      | Inr p \<Rightarrow>
          (case select_package h pkg es of
             Inl err \<Rightarrow> Inl err
           | Inr rs \<Rightarrow> Inr (if pkg = p then e # rs else rs)))"

definition PackageFileSet_getitem ::
  "string \<Rightarrow> PackageFileSet \<Rightarrow> world \<Rightarrow> error + (nat list \<times> PackageFileSet \<times> world)" where
  "PackageFileSet_getitem pkg st w =
     (case PackageFileSet_iter st w of
        Inl e \<Rightarrow> Inl e
      | Inr (es, st1, w1) \<Rightarrow>
          (case select_package (heap w1) pkg es of
             Inl e \<Rightarrow> Inl e
           | Inr rs \<Rightarrow> Inr (rs, st1, w1)))"

text \<open>\<open>PackageFileSet.__delitem__\<close>: for every file, the first loop reads \<open>e.package\<close>
  of every line of the file, the second removes the collected objects.\<close>

fun remove_each :: "nat list \<Rightarrow> nat list \<Rightarrow> error + nat list" where
  "remove_each [] its = Inr its"
| "remove_each (e # es) its =
     (case list_remove e its of
        Inl err \<Rightarrow> Inl err
      | Inr its' \<Rightarrow> remove_each es its')"

fun delitem_files :: "(nat \<Rightarrow> line) \<Rightarrow> string \<Rightarrow> PackageFile list \<Rightarrow> error + PackageFile list" where
  "delitem_files h pkg [] = Inr []"
| "delitem_files h pkg (f # fl) =
     (case select_package h pkg (items f) of
        Inl err \<Rightarrow> Inl err
      | Inr entries \<Rightarrow>
          (case remove_each entries (items f) of
             Inl err \<Rightarrow> Inl err
           | Inr its \<Rightarrow>
               (case delitem_files h pkg fl of
                  Inl err \<Rightarrow> Inl err
                | Inr fl' \<Rightarrow> Inr (f\<lparr>items := its, priv_modified := True\<rparr> # fl'))))"

definition PackageFileSet_delitem ::
  "string \<Rightarrow> PackageFileSet \<Rightarrow> world \<Rightarrow> error + (PackageFileSet \<times> world)" where
  "PackageFileSet_delitem pkg st w =
     (case files st w of
        Inl e \<Rightarrow> Inl e
      | Inr (st1, w1) \<Rightarrow>
          (case delitem_files (heap w1) pkg (priv_files st1) of
             Inl e \<Rightarrow> Inl e
           | Inr fl \<Rightarrow> Inr (st1\<lparr>priv_files := fl\<rparr>, w1)))"

section \<open>The caches (cache.py)\<close>

text \<open>
  The package catalogue and the functions of portage are outside the program and are taken
  as given: \<open>xmatch k\<close> is \<open>dbapi.xmatch('match-all', k)\<close>, \<open>aux_get p key\<close> is
  \<open>dbapi.aux_get(p, (key,))[0]\<close>, \<open>best\<close> is \<open>portage.versions.best\<close>, \<open>grabfile\<close> is
  \<open>portage.util.grabfile\<close>, \<open>use_expand\<close> is the setting \<open>USE_EXPAND\<close> (empty when it is
  not set), \<open>open_lines path\<close> is the lines of a text file (\<open>None\<close> when \<open>open\<close> raises
  \<open>IOError\<close>) and \<open>listdir path\<close> is \<open>os.listdir\<close> (\<open>None\<close> when it raises
  \<open>OSError\<close>).
\<close>

record dbapi =
  xmatch :: "string \<Rightarrow> string list"
  aux_get :: "string \<Rightarrow> string \<Rightarrow> string"
  best :: "string list \<Rightarrow> string"
  porttrees :: "string list"
  grabfile :: "string \<Rightarrow> string list"
  use_expand :: string
  open_lines :: "string \<Rightarrow> string list option"
  listdir :: "string \<Rightarrow> string list option"

text \<open>What a subclass of \<open>DBAPICache\<close> overrides: \<open>aux_key\<close> and \<open>_aux_parse\<close>.\<close>

record cache_class =
  aux_key :: string
  aux_parse :: "string \<Rightarrow> string list"

definition FlagCache :: cache_class where
  "FlagCache =
     \<lparr>aux_key = ''IUSE'',
      aux_parse = (\<lambda>arg. map (dropWhile (\<lambda>c. c = CHR ''+'' \<or> c = CHR ''-'')) (str_split arg))\<rparr>"

definition KeywordCache :: cache_class where
  "KeywordCache =
     \<lparr>aux_key = ''KEYWORDS'',
      aux_parse = (\<lambda>arg. filter (\<lambda>x. \<not> startswith x ''-'') (str_split arg) @ [''*'', ''**''])\<rparr>"

text \<open>\<open>LicenseCache._aux_parse\<close>, given \<open>portage.dep.use_reduce\<close> (with \<open>matchall\<close>
  and \<open>flat\<close>) and the value of the property \<open>groups\<close>, as the list of its items. The
  update by the generator looks at the set while it grows.\<close>

fun add_groups :: "(string \<times> string list) list \<Rightarrow> string list \<Rightarrow> string list" where
  "add_groups [] lic = lic"
| "add_groups ((k, v) # gs) lic =
     add_groups gs (if set lic \<inter> set v \<noteq> {} then lic @ [k] else lic)"

definition LicenseCache :: "(string \<Rightarrow> string list) \<Rightarrow> (string \<times> string list) list \<Rightarrow> cache_class" where
  "LicenseCache use_reduce groups =
     \<lparr>aux_key = ''LICENSE'',
      aux_parse = (\<lambda>arg. add_groups groups (filter (\<lambda>x. x \<noteq> ''||'') (use_reduce arg)))\<rparr>"

text \<open>The two dictionaries of a cache object. The key \<open>None\<close> of \<open>cache\<close> holds the
  global set of the property \<open>glob\<close>.\<close>

record DBAPICache =
  cache :: "string option \<Rightarrow> string set option"
  effective_cache :: "string \<Rightarrow> string set option"

definition DBAPICache_init :: DBAPICache where
  "DBAPICache_init = \<lparr>cache = (\<lambda>k. None), effective_cache = (\<lambda>k. None)\<rparr>"

text \<open>\<open>DBAPICache.__getitem__\<close>\<close>

fun update_flags :: "cache_class \<Rightarrow> dbapi \<Rightarrow> string list \<Rightarrow> string set \<Rightarrow> string set" where
  "update_flags cls db [] flags = flags"
| "update_flags cls db (p # ps) flags =
     update_flags cls db ps (flags \<union> set (aux_parse cls (aux_get db p (aux_key cls))))"

definition DBAPICache_getitem ::
  "cache_class \<Rightarrow> dbapi \<Rightarrow> string \<Rightarrow> DBAPICache \<Rightarrow> string set \<times> DBAPICache" where
  "DBAPICache_getitem cls db k c =
     (case cache c (Some k) of
        Some v \<Rightarrow> (v, c)
      | None \<Rightarrow>
          (let flags = update_flags cls db (xmatch db k) {}
           in (flags, c\<lparr>cache := (cache c)(Some k \<mapsto> flags)\<rparr>)))"

text \<open>\<open>DBAPICache.get_effective\<close>\<close>

definition DBAPICache_get_effective ::
  "cache_class \<Rightarrow> dbapi \<Rightarrow> string \<Rightarrow> DBAPICache \<Rightarrow> string set \<times> DBAPICache" where
  "DBAPICache_get_effective cls db k c =
     (case effective_cache c k of
        Some v \<Rightarrow> (v, c)
      | None \<Rightarrow>
          (let pkgs = xmatch db k;
               flags = (if pkgs \<noteq> []
                        then set (aux_parse cls (aux_get db (best db pkgs) (aux_key cls)))
                        else {})
           in (flags, c\<lparr>effective_cache := (effective_cache c)(k \<mapsto> flags)\<rparr>)))"

text \<open>\<open>grab_use_desc\<close>, as the list of the keys of the dictionary it returns (its callers
  use the keys only). \<open>split_sep sep [] l\<close> is \<open>l.split(sep, 1)\<close>.\<close>

fun split_sep :: "string \<Rightarrow> string \<Rightarrow> string \<Rightarrow> string list" where
  "split_sep sep acc [] = [rev acc]"
| "split_sep sep acc (c # cs) =
     (if startswith (c # cs) sep then [rev acc, drop (length sep) (c # cs)]
      else split_sep sep (c # acc) cs)"

definition grab_use_desc :: "dbapi \<Rightarrow> string \<Rightarrow> string \<Rightarrow> string list" where
  "grab_use_desc db p prefix =
     (case open_lines db p of
        None \<Rightarrow> []
      | Some ls \<Rightarrow>
          concat (map (\<lambda>l. (case split_sep '' - '' [] l of
                               a # b # rest \<Rightarrow> [prefix @ a]
                             | _ \<Rightarrow> [])) ls))"

text \<open>\<open>str.lower\<close> on code points below 256.\<close>

definition lower_char :: "char \<Rightarrow> char" where
  "lower_char c =
     (let n = (of_char c :: nat)
      in if (65 \<le> n \<and> n \<le> 90) \<or> (192 \<le> n \<and> n \<le> 222 \<and> n \<noteq> 215)
         then char_of (n + 32) else c)"

text \<open>The property \<open>glob\<close> of \<open>FlagCache\<close>, \<open>KeywordCache\<close> and \<open>LicenseCache\<close>.\<close>

fun flag_descs :: "dbapi \<Rightarrow> string \<Rightarrow> string list \<Rightarrow> string set \<Rightarrow> string set" where
  "flag_descs db r [] flags = flags"
| "flag_descs db r (k # ks) flags =
     flag_descs db r ks
       (flags \<union> set (grab_use_desc db
                       (path_join (path_join (path_join r ''profiles'') ''desc'')
                                  (map lower_char k @ ''.desc''))
                       (map lower_char k @ ''_'')))"

fun flag_trees :: "dbapi \<Rightarrow> string list \<Rightarrow> string set \<Rightarrow> string set" where
  "flag_trees db [] flags = flags"
| "flag_trees db (r # rs) flags =
     flag_trees db rs
       (flag_descs db r (str_split (use_expand db))
          (flags \<union> set (grab_use_desc db
                          (path_join (path_join r ''profiles'') ''use.desc'') [])))"

definition FlagCache_glob :: "dbapi \<Rightarrow> DBAPICache \<Rightarrow> string set \<times> DBAPICache" where
  "FlagCache_glob db c =
     (case cache c None of
        Some v \<Rightarrow> (v, c)
      | None \<Rightarrow>
          (let flags = flag_trees db (porttrees db) {}
           in (flags, c\<lparr>cache := (cache c)(None \<mapsto> flags)\<rparr>)))"

fun keyword_trees :: "dbapi \<Rightarrow> string list \<Rightarrow> string set \<Rightarrow> string set" where
  "keyword_trees db [] kws = kws"
| "keyword_trees db (r # rs) kws =
     keyword_trees db rs
       (kws \<union> set (grabfile db (path_join (path_join r ''profiles'') ''arch.list'')))"

definition KeywordCache_glob :: "dbapi \<Rightarrow> DBAPICache \<Rightarrow> string set \<times> DBAPICache" where
  "KeywordCache_glob db c =
     (case cache c None of
        Some v \<Rightarrow> (v, c)
      | None \<Rightarrow>
          (let kws = keyword_trees db (porttrees db) {};
               kws' = kws \<union> (\<lambda>x. ''~'' @ x) ` kws \<union> {''*'', ''**'', ''~*''}
           in (kws', c\<lparr>cache := (cache c)(None \<mapsto> kws')\<rparr>)))"

fun license_trees :: "dbapi \<Rightarrow> string list \<Rightarrow> string list \<Rightarrow> string set \<Rightarrow> string set" where
  "license_trees db group_names [] lic = lic"
| "license_trees db group_names (r # rs) lic =
     license_trees db group_names rs
       ((case listdir db (path_join r ''licenses'') of
           None \<Rightarrow> lic
         | Some ns \<Rightarrow> lic \<union> set ns) \<union> set group_names)"

definition LicenseCache_glob ::
  "(string \<times> string list) list \<Rightarrow> dbapi \<Rightarrow> DBAPICache \<Rightarrow> string set \<times> DBAPICache" where
  "LicenseCache_glob groups db c =
     (case cache c None of
        Some v \<Rightarrow> (v, c)
      | None \<Rightarrow>
          (let lic = license_trees db (map fst groups) (porttrees db) {} - {''CVS''}
           in (lic, c\<lparr>cache := (cache c)(None \<mapsto> lic)\<rparr>)))"

section \<open>Example data\<close>

text \<open>A file of three lines: a record whose flags were all removed, an untouched record
  without flags, and a comment.\<close>

definition ex_heap :: "nat \<Rightarrow> line" where
  "ex_heap = (\<lambda>r. Whitespace [])
     (0 := PackageEntry (''dev-libs/foo bar'' @ [CHR 0x0A]) True ''dev-libs/foo'' [],
      1 := PackageEntry (''app-misc/baz'' @ [CHR 0x0A]) False ''app-misc/baz'' [],
      2 := Whitespace (''# comment'' @ [CHR 0x0A]))"

definition ex_world :: world where
  "ex_world = \<lparr>heap = ex_heap, nxt = 3, fs = Map.empty, wlog = []\<rparr>"

definition ex_file :: PackageFile where
  "ex_file = \<lparr>path = ''package.use'', priv_modified = False, items = [0, 1, 2]\<rparr>"


section \<open>Writing a file\<close>

lemma write_lines_eq:
  "write_lines h ls out = out @ concat (map (\<lambda>r. written_text (h r)) ls)"
proof (induction ls arbitrary: out)
  case Nil
  show ?case by simp
next
  case (Cons l ls)
  show ?case
  proof (cases "h l")
    case (Whitespace d)
    then show ?thesis by (simp add: Cons.IH)
  next
    case (PackageEntry s m p fl)
    then show ?thesis by (cases m; cases fl) (simp_all add: Cons.IH)
  qed
qed

text \<open>
  C9. A file-level write of a dirty file leaves out every record that is dirty and has no
  flags; a record that is not dirty is written as its raw text, also when it has no flags;
  every other line is written as the specification says.
\<close>

theorem write_omits_dirty_empty_records:
  assumes "PackageFile_modified (heap w) f"
    and "\<forall>ns. fs w (path f) \<noteq> Some (Dir ns)"
  shows "\<exists>f' w'. PackageFile_write f w = Inr (f', w')
           \<and> fs w' (path f) = Some (File (concat (map (\<lambda>r. written_text (heap w r)) (items f))))
           \<and> written_text (PackageEntry s True p []) = []
           \<and> written_text (PackageEntry s False p []) = s"
proof (cases "fs w (path f)")
  case None
  with assms(1) show ?thesis
    by (simp add: PackageFile_write_def write_lines_eq Let_def)
next
  case (Some n)
  with assms(2) obtain c where "n = File c" by (cases n) auto
  with Some assms(1) show ?thesis
    by (simp add: PackageFile_write_def write_lines_eq Let_def)
qed


theorem write_omits_dirty_empty_records_witness:
  "PackageFile_modified (heap ex_world) ex_file
   \<and> (\<forall>ns. fs ex_world (path ex_file) \<noteq> Some (Dir ns))
   \<and> (\<exists>f' w'. PackageFile_write ex_file ex_world = Inr (f', w')
         \<and> fs w' (path ex_file)
             = Some (File (''app-misc/baz'' @ [CHR 0x0A] @ ''# comment'' @ [CHR 0x0A])))"
proof -
  have h1: "PackageFile_modified (heap ex_world) ex_file"
    by (simp add: ex_world_def ex_file_def ex_heap_def PackageFile_modified_def)
  have h2: "\<forall>ns. fs ex_world (path ex_file) \<noteq> Some (Dir ns)"
    by (simp add: ex_world_def)
  have "concat (map (\<lambda>r. written_text (heap ex_world r)) (items ex_file))
          = ''app-misc/baz'' @ [CHR 0x0A] @ ''# comment'' @ [CHR 0x0A]"
    by (simp add: ex_world_def ex_file_def ex_heap_def)
  with write_omits_dirty_empty_records [OF h1 h2, where s = "[]" and p = "[]"] h1 h2
  show ?thesis by auto
qed

end
